theory Spec2Isabelle
  imports Main
begin

section \<open>The conversational agent of ch3/13\_use\_prompt\<close>

text \<open>
  A shallow embedding of \<^verbatim>\<open>agent.py\<close> (class \<^verbatim>\<open>Agent\<close>) and of the parts of
  \<^verbatim>\<open>client.py\<close> (class \<^verbatim>\<open>MCPClient\<close>) the agent calls. The LLM service, the MCP
  session and the library functions \<^verbatim>\<open>json.loads\<close>, \<^verbatim>\<open>json.dumps\<close> and
  \<^verbatim>\<open>model_dump_json\<close> are outside the repository: they are parameters of the model
  (record \<open>env\<close>), acting on a state \<open>'w\<close> of their own. Every Python exception is a value
  of type \<open>exn\<close>; an operation returns \<open>(exn + 'a) \<times> state\<close>.
  The lines the source prints with the prefix \<^verbatim>\<open>[DEBUG]\<close> are not part of the model.
\<close>

subsection \<open>Values\<close>

datatype exn =
    IndexError
  | AttributeError
  | TypeError
  | KeyError string
  | EOFError
  | RuntimeError string
  | LibraryError string

text \<open>
  A decoded JSON value. \<open>JObj\<close> is a Python \<^verbatim>\<open>dict\<close>: its items in iteration order.
  A float is kept as a mantissa and an exponent; the code never looks inside a number.
\<close>

datatype json =
    JNull
  | JBool bool
  | JInt int
  | JFloat int int
  | JStr string
  | JArr "json list"
  | JObj "(string \<times> json) list"

text \<open>Content blocks, of an LLM response and of the turns the agent builds.\<close>

datatype block =
    Text string
  | Image string string
  | ToolUse string string json
  | ToolResult string string
  | OtherBlock string

datatype role = User | Assistant

datatype content = Plain string | Blocks "block list"

record message =
  role :: role
  content :: content

record tool_spec =
  tool_name :: string
  tool_description :: "string option"
  input_schema :: json

record llm_request =
  max_tokens :: nat
  messages :: "message list"
  model :: string
  system :: "string option"
  tools :: "tool_spec list option"
  tool_choice :: "string option"

record llm_response =
  stop_reason :: string
  response_content :: "block list"

record resource =
  resource_name :: string
  uri :: string
  description :: "string option"

record prompt =
  prompt_name :: string
  prompt_description :: "string option"
  prompt_arguments :: "string list"

text \<open>What the MCP session returns: parts of a tool result, of a resource, of a prompt.\<close>

datatype tool_content =
    TextContent string
  | ImageContent string
  | AudioContent string
  | EmbeddedText string
  | EmbeddedBlob string
  | OtherContent string

datatype resource_contents =
    TextResourceContents string
  | BlobResourceContents "string option" string

datatype prompt_message = TextMessage string | NonTextMessage

subsection \<open>The collaborators outside the repository\<close>

record 'w env =
  llm_create :: "llm_request \<Rightarrow> 'w \<Rightarrow> (exn + llm_response) \<times> 'w"
  json_loads :: "string \<Rightarrow> exn + json"
  json_dumps :: "json \<Rightarrow> string"
  model_dump_json :: "prompt \<Rightarrow> string"
  session_open :: "'w \<Rightarrow> (exn + unit) \<times> 'w"
  session_close :: "'w \<Rightarrow> (exn + unit) \<times> 'w"
  list_tools :: "'w \<Rightarrow> (exn + tool_spec list) \<times> 'w"
  list_resources :: "'w \<Rightarrow> (exn + resource list) \<times> 'w"
  list_prompts :: "'w \<Rightarrow> (exn + prompt list) \<times> 'w"
  call_tool :: "string \<Rightarrow> json \<Rightarrow> 'w \<Rightarrow> (exn + tool_content list) \<times> 'w"
  read_resource :: "string \<Rightarrow> 'w \<Rightarrow> (exn + resource_contents list) \<times> 'w"
  get_prompt :: "string \<Rightarrow> json \<Rightarrow> 'w \<Rightarrow> (exn + prompt_message list) \<times> 'w"

subsection \<open>The state of a session\<close>

text \<open>
  \<open>connected\<close> is \<^verbatim>\<open>MCPClient._connected\<close>; \<open>available_resources\<close> and
  \<open>available_prompts\<close> are the two dictionaries of the \<^verbatim>\<open>Agent\<close>, as their items in
  insertion order. \<open>llm_log\<close> and \<open>tool_log\<close> record every request sent to the LLM and
  every tool call sent to the session, in order; \<open>stdin\<close> holds the lines still to be
  read and \<open>stdout\<close> what has been written.
\<close>

record 'w state =
  world :: 'w
  connected :: bool
  available_resources :: "(string \<times> resource) list"
  available_prompts :: "(string \<times> prompt) list"
  llm_log :: "llm_request list"
  tool_log :: "(string \<times> json) list"
  stdin :: "string list"
  stdout :: "string list"

subsection \<open>Python strings and dictionaries\<close>

text \<open>
  Text is a list of characters with code points below 256; \<open>is_space\<close> is
  \<^verbatim>\<open>str.isspace\<close> on that range.
\<close>

definition is_space :: "char \<Rightarrow> bool" where
  "is_space c = (of_char c \<in> {9, 10, 11, 12, 13, 28, 29, 30, 31, 32, 133, 160 :: nat})"

definition strip :: "string \<Rightarrow> string" where
  "strip s = rev (dropWhile is_space (rev (dropWhile is_space s)))"

definition find_char :: "char \<Rightarrow> string \<Rightarrow> nat" where
  "find_char c s = length (takeWhile (\<lambda>x. x \<noteq> c) s)"

definition rfind_char :: "char \<Rightarrow> string \<Rightarrow> nat" where
  "rfind_char c s = length s - 1 - length (takeWhile (\<lambda>x. x \<noteq> c) (rev s))"

definition slice :: "string \<Rightarrow> nat \<Rightarrow> nat \<Rightarrow> string" where
  "slice s start stop = take (stop - start) (drop start s)"



fun join :: "string \<Rightarrow> string list \<Rightarrow> string" where
  "join sep [] = []"
| "join sep [x] = x"
| "join sep (x # y # ys) = x @ sep @ join sep (y # ys)"

definition dict_in :: "'k \<Rightarrow> ('k \<times> 'v) list \<Rightarrow> bool" where
  "dict_in k d = (k \<in> set (map fst d))"

fun dict_set :: "('k \<times> 'v) list \<Rightarrow> 'k \<Rightarrow> 'v \<Rightarrow> ('k \<times> 'v) list" where
  "dict_set [] k v = [(k, v)]"
| "dict_set ((k', v') # d) k v =
     (if k' = k then (k, v) # d else (k', v') # dict_set d k v)"

text \<open>\<^verbatim>\<open>x in d\<close> for a decoded value \<open>x\<close> and a dictionary with string keys:
  a list or a dictionary is unhashable, a number, a boolean or \<^verbatim>\<open>None\<close> equals no key.\<close>

fun json_in :: "json \<Rightarrow> (string \<times> 'v) list \<Rightarrow> exn + bool" where
  "json_in (JStr s) d = Inr (dict_in s d)"
| "json_in (JArr xs) d = Inl TypeError"
| "json_in (JObj kvs) d = Inl TypeError"
| "json_in _ d = Inr False"

text \<open>\<^verbatim>\<open>p[k]\<close> for a decoded value \<open>p\<close> and a string \<open>k\<close>.\<close>

fun getitem :: "json \<Rightarrow> string \<Rightarrow> exn + json" where
  "getitem (JObj kvs) k = (case map_of kvs k of None \<Rightarrow> Inl (KeyError k) | Some v \<Rightarrow> Inr v)"
| "getitem _ k = Inl TypeError"

text \<open>Iterating over a decoded value: a list gives its elements, a dictionary its keys,
  a string its characters; anything else is not iterable.\<close>

fun iterate :: "json \<Rightarrow> exn + json list" where
  "iterate (JArr xs) = Inr xs"
| "iterate (JObj kvs) = Inr (map (\<lambda>kv. JStr (fst kv)) kvs)"
| "iterate (JStr s) = Inr (map (\<lambda>c. JStr [c]) s)"
| "iterate _ = Inl TypeError"

subsection \<open>Output and input\<close>

definition print :: "string \<Rightarrow> 'w state \<Rightarrow> 'w state" where
  "print line s = s\<lparr>stdout := stdout s @ [line]\<rparr>"





definition nl :: string where
  "nl = [CHR 0x0A]"

definition dq :: string where
  "dq = [CHR 0x22]"

subsection \<open>MCPClient (client.py)\<close>

definition not_connected :: exn where
  "not_connected = RuntimeError ''Client not connected to a server''"


text \<open>The strings \<^verbatim>\<open>use_tool\<close> collects from one part of a tool result; a part of a
  type the \<^verbatim>\<open>match\<close> has no case for adds nothing.\<close>

fun tool_strings :: "tool_content \<Rightarrow> string list" where
  "tool_strings (TextContent t) = [t]"
| "tool_strings (ImageContent d) = [d]"
| "tool_strings (AudioContent d) = [d]"
| "tool_strings (EmbeddedText t) = [t]"
| "tool_strings (EmbeddedBlob b) = [b]"
| "tool_strings (OtherContent ty) = []"

definition use_tool :: "'w env \<Rightarrow> string \<Rightarrow> json \<Rightarrow> 'w state \<Rightarrow> (exn + string list) \<times> 'w state" where
  "use_tool env name arguments s =
     (if \<not> connected s then (Inl not_connected, s)
      else case call_tool env name arguments (world s) of
             (Inl e, w) \<Rightarrow> (Inl e, s\<lparr>world := w, tool_log := tool_log s @ [(name, arguments)]\<rparr>)
           | (Inr cs, w) \<Rightarrow>
               (Inr (concat (map tool_strings cs)),
                s\<lparr>world := w, tool_log := tool_log s @ [(name, arguments)]\<rparr>))"

definition get_resource :: "'w env \<Rightarrow> string \<Rightarrow> 'w state \<Rightarrow> (exn + resource_contents list) \<times> 'w state" where
  "get_resource env u s =
     (if \<not> connected s then (Inl not_connected, s)
      else case read_resource env u (world s) of (r, w) \<Rightarrow> (r, s\<lparr>world := w\<rparr>))"


definition get_available_resources :: "'w env \<Rightarrow> 'w state \<Rightarrow> (exn + resource list) \<times> 'w state" where
  "get_available_resources env s =
     (if \<not> connected s then (Inl not_connected, s)
      else case list_resources env (world s) of (r, w) \<Rightarrow> (r, s\<lparr>world := w\<rparr>))"


definition get_available_prompts :: "'w env \<Rightarrow> 'w state \<Rightarrow> (exn + prompt list) \<times> 'w state" where
  "get_available_prompts env s =
     (if \<not> connected s then (Inl not_connected, s)
      else case list_prompts env (world s) of (r, w) \<Rightarrow> (r, s\<lparr>world := w\<rparr>))"


subsection \<open>Agent: selecting resources and prompts\<close>

text \<open>A call of \<^verbatim>\<open>anthropic_client.messages.create\<close>; the request is logged.\<close>

definition messages_create :: "'w env \<Rightarrow> llm_request \<Rightarrow> 'w state \<Rightarrow> (exn + llm_response) \<times> 'w state" where
  "messages_create env req s =
     (case llm_create env req (world s) of
        (r, w) \<Rightarrow> (r, s\<lparr>world := w, llm_log := llm_log s @ [req]\<rparr>))"

definition selection_request :: "string \<Rightarrow> llm_request" where
  "selection_request p =
     \<lparr>max_tokens = 200, messages = [\<lparr>role = User, content = Plain p\<rparr>],
      model = ''claude-sonnet-4-0'', system = None, tools = None, tool_choice = None\<rparr>"

definition resource_descriptions :: "(string \<times> resource) list \<Rightarrow> json" where
  "resource_descriptions d =
     JObj (map (\<lambda>(name, r).
       (name, JStr (case description r of
                      None \<Rightarrow> ''Resource: '' @ name
                    | Some t \<Rightarrow> if t = [] then ''Resource: '' @ name else t))) d)"

definition resource_selection_prompt :: "'w env \<Rightarrow> string \<Rightarrow> (string \<times> resource) list \<Rightarrow> string" where
  "resource_selection_prompt env user_query d = concat
     [nl, ''Given this user question: '', dq, user_query, dq, nl,
      nl, ''And these available resources:'', nl,
      json_dumps env (resource_descriptions d), nl,
      nl, ''Which resources (if any) would be helpful to answer the user'', [CHR 0x27], ''s question?'', nl,
      ''Return a JSON array of resource names, or an empty array if no resources are needed.'', nl,
      ''Only include resources that are directly relevant.'', nl,
      nl, ''Example: ['', dq, ''math-constants'', dq, ''] or []'', nl]"

definition prompt_selection_prompt :: "'w env \<Rightarrow> string \<Rightarrow> (string \<times> prompt) list \<Rightarrow> string" where
  "prompt_selection_prompt env user_query d = concat
     [nl, ''Given this user question: '', dq, user_query, dq, nl,
      nl, ''And these available prompt templates:'', nl,
      json_dumps env (JArr (map (\<lambda>(name, p). JStr (model_dump_json env p)) d)), nl,
      nl, ''Which prompts (if any) would provide helpful instructions or guidance for answering this question?'', nl,
      ''Return a JSON array of prompt objects which have a name (string) and arguments (objects where the '', nl,
      ''keys are the named parameter name and value is the argument value), or an empty array if no prompts'', nl,
      ''are needed. Only include prompts that are directly relevant.'', nl,
      nl, ''Example: [{'', dq, ''name'', dq, '': '', dq, ''calculation-helper'', dq, '', '',
        dq, ''arguments'', dq, '': {'', dq, ''operation'', dq, '': '', dq, ''addition'', dq, ''}]},'', nl,
      '' {'', dq, ''name'', dq, '': '', dq, ''step-by-step-math'', dq, '', '',
        dq, ''arguments'', dq, '': {}}] or []'', nl]"

text \<open>\<^verbatim>\<open>response.content[0].text\<close>: no first block is an \<^verbatim>\<open>IndexError\<close>, a first
  block without text an \<^verbatim>\<open>AttributeError\<close>.\<close>

definition first_text :: "llm_response \<Rightarrow> exn + string" where
  "first_text resp =
     (case response_content resp of
        [] \<Rightarrow> Inl IndexError
      | Text t # bs \<Rightarrow> Inr t
      | b # bs \<Rightarrow> Inl AttributeError)"

text \<open>The text between the first \<^verbatim>\<open>[\<close> and the last \<^verbatim>\<open>]\<close>, when the text has both.\<close>

definition json_part :: "string \<Rightarrow> string option" where
  "json_part t =
     (if CHR ''['' \<in> set t \<and> CHR '']'' \<in> set t
      then Some (slice t (find_char (CHR ''['') t) (rfind_char (CHR '']'') t + 1))
      else None)"

text \<open>\<^verbatim>\<open>[r for r in selected_resources if r in self.available_resources]\<close>:
  an element kept is a string, since every key is one.\<close>

fun filter_resources :: "(string \<times> resource) list \<Rightarrow> json list \<Rightarrow> exn + string list" where
  "filter_resources d [] = Inr []"
| "filter_resources d (r # rs) =
     (case json_in r d of
        Inl e \<Rightarrow> Inl e
      | Inr b \<Rightarrow>
          (case filter_resources d rs of
             Inl e \<Rightarrow> Inl e
           | Inr ys \<Rightarrow> Inr (case r of JStr name \<Rightarrow> if b then name # ys else ys | _ \<Rightarrow> ys)))"

text \<open>\<^verbatim>\<open>[p for p in selected_prompts if p["name"] in self.available_prompts]\<close>\<close>

fun filter_prompts :: "(string \<times> prompt) list \<Rightarrow> json list \<Rightarrow> exn + json list" where
  "filter_prompts d [] = Inr []"
| "filter_prompts d (p # ps) =
     (case getitem p ''name'' of
        Inl e \<Rightarrow> Inl e
      | Inr n \<Rightarrow>
          (case json_in n d of
             Inl e \<Rightarrow> Inl e
           | Inr b \<Rightarrow>
               (case filter_prompts d ps of
                  Inl e \<Rightarrow> Inl e
                | Inr ys \<Rightarrow> Inr (if b then p # ys else ys))))"

text \<open>The body of the \<^verbatim>\<open>try\<close> of \<^verbatim>\<open>_select_resources\<close>: \<open>Inr (Some rs)\<close> is the
  \<^verbatim>\<open>return result\<close> inside it, \<open>Inr None\<close> leaving it without a return.\<close>

definition select_resources_try :: "'w env \<Rightarrow> string \<Rightarrow> 'w state \<Rightarrow> (exn + string list option) \<times> 'w state" where
  "select_resources_try env user_query s =
     (case messages_create env
             (selection_request (resource_selection_prompt env user_query (available_resources s))) s of
        (Inl e, s1) \<Rightarrow> (Inl e, s1)
      | (Inr resp, s1) \<Rightarrow>
          (case first_text resp of
             Inl e \<Rightarrow> (Inl e, s1)
           | Inr t \<Rightarrow>
               (case json_part (strip t) of
                  None \<Rightarrow> (Inr None, s1)
                | Some part \<Rightarrow>
                    (case json_loads env part of
                       Inl e \<Rightarrow> (Inl e, s1)
                     | Inr v \<Rightarrow>
                         (case iterate v of
                            Inl e \<Rightarrow> (Inl e, s1)
                          | Inr xs \<Rightarrow>
                              (case filter_resources (available_resources s1) xs of
                                 Inl e \<Rightarrow> (Inl e, s1)
                               | Inr rs \<Rightarrow> (Inr (Some rs), s1)))))))"

text \<open>\<^verbatim>\<open>_select_resources\<close>: an empty catalog returns at once; an exception of the
  \<^verbatim>\<open>try\<close> is caught and logged, and the function returns the empty list.\<close>

definition select_resources :: "'w env \<Rightarrow> string \<Rightarrow> 'w state \<Rightarrow> (exn + string list) \<times> 'w state" where
  "select_resources env user_query s =
     (if available_resources s = [] then (Inr [], s)
      else case select_resources_try env user_query s of
             (Inl e, s1) \<Rightarrow> (Inr [], s1)
           | (Inr (Some rs), s1) \<Rightarrow> (Inr rs, s1)
           | (Inr None, s1) \<Rightarrow> (Inr [], s1))"

definition select_prompts_try :: "'w env \<Rightarrow> string \<Rightarrow> 'w state \<Rightarrow> (exn + json list option) \<times> 'w state" where
  "select_prompts_try env user_query s =
     (case messages_create env
             (selection_request (prompt_selection_prompt env user_query (available_prompts s))) s of
        (Inl e, s1) \<Rightarrow> (Inl e, s1)
      | (Inr resp, s1) \<Rightarrow>
          (case first_text resp of
             Inl e \<Rightarrow> (Inl e, s1)
           | Inr t \<Rightarrow>
               (case json_part (strip t) of
                  None \<Rightarrow> (Inr None, s1)
                | Some part \<Rightarrow>
                    (case json_loads env part of
                       Inl e \<Rightarrow> (Inl e, s1)
                     | Inr v \<Rightarrow>
                         (case iterate v of
                            Inl e \<Rightarrow> (Inl e, s1)
                          | Inr xs \<Rightarrow>
                              (case filter_prompts (available_prompts s1) xs of
                                 Inl e \<Rightarrow> (Inl e, s1)
                               | Inr ps \<Rightarrow> (Inr (Some ps), s1)))))))"

definition select_prompts :: "'w env \<Rightarrow> string \<Rightarrow> 'w state \<Rightarrow> (exn + json list) \<times> 'w state" where
  "select_prompts env user_query s =
     (if available_prompts s = [] then (Inr [], s)
      else case select_prompts_try env user_query s of
             (Inl e, s1) \<Rightarrow> (Inr [], s1)
           | (Inr (Some ps), s1) \<Rightarrow> (Inr ps, s1)
           | (Inr None, s1) \<Rightarrow> (Inr [], s1))"

subsection \<open>Agent: loading resources and prompts\<close>

definition image_types :: "string list" where
  "image_types = [''image/jpeg'', ''image/png'', ''image/gif'', ''image/webp'']"

text \<open>The inner loop of \<^verbatim>\<open>_load_selected_resources\<close> over the parts of one resource,
  appending to the blocks collected so far. The branch for a part that is neither
  text nor a known image reads \<^verbatim>\<open>mimeType\<close> of the list of parts, which raises
  \<^verbatim>\<open>AttributeError\<close>; the blocks appended before stay.\<close>

fun render_contents :: "string \<Rightarrow> resource_contents list \<Rightarrow> block list \<Rightarrow> (exn + unit) \<times> block list" where
  "render_contents name [] acc = (Inr (), acc)"
| "render_contents name (TextResourceContents t # cs) acc =
     render_contents name cs (acc @ [Text (''[Resource: '' @ name @ '']'' @ nl @ t)])"
| "render_contents name (BlobResourceContents mime blob # cs) acc =
     (case mime of
        None \<Rightarrow> (Inl AttributeError, acc)
      | Some m \<Rightarrow>
          if m \<in> set image_types then render_contents name cs (acc @ [Image m blob])
          else (Inl AttributeError, acc))"

fun load_resources_loop :: "'w env \<Rightarrow> string list \<Rightarrow> block list \<Rightarrow> 'w state \<Rightarrow> block list \<times> 'w state" where
  "load_resources_loop env [] acc s = (acc, s)"
| "load_resources_loop env (name # names) acc s =
     (case map_of (available_resources s) name of
        None \<Rightarrow> load_resources_loop env names acc s
      | Some r \<Rightarrow>
          (let s1 = print (''LLM selected resource: '' @ name) s
           in (case get_resource env (uri r) s1 of
                 (Inl e, s2) \<Rightarrow> load_resources_loop env names acc s2
               | (Inr cs, s2) \<Rightarrow>
                   load_resources_loop env names (snd (render_contents name cs acc)) s2)))"

definition load_selected_resources :: "'w env \<Rightarrow> string list \<Rightarrow> 'w state \<Rightarrow> (exn + block list) \<times> 'w state" where
  "load_selected_resources env resource_names s =
     (case load_resources_loop env resource_names [] s of (blocks, s1) \<Rightarrow> (Inr blocks, s1))"




subsection \<open>Agent: refreshing the catalogs\<close>

text \<open>A dictionary comprehension \<^verbatim>\<open>{key(x): x for x in xs}\<close>.\<close>

definition dict_of :: "('v \<Rightarrow> 'k) \<Rightarrow> 'v list \<Rightarrow> ('k \<times> 'v) list" where
  "dict_of key xs = foldl (\<lambda>d x. dict_set d (key x) x) [] xs"

definition refresh :: "'w env \<Rightarrow> 'w state \<Rightarrow> (exn + unit) \<times> 'w state" where
  "refresh env s =
     (case get_available_resources env s of
        (Inl e, s1) \<Rightarrow> (Inl e, s1)
      | (Inr rs, s1) \<Rightarrow>
          (let s2 = s1\<lparr>available_resources := dict_of resource_name rs\<rparr>
           in (case get_available_prompts env s2 of
                 (Inl e, s3) \<Rightarrow> (Inl e, s3)
               | (Inr ps, s3) \<Rightarrow>
                   (Inr (), s3\<lparr>available_prompts := dict_of prompt_name ps\<rparr>))))"

subsection \<open>Agent: the tool-use loop\<close>

definition main_request :: "message list \<Rightarrow> string \<Rightarrow> tool_spec list \<Rightarrow> llm_request" where
  "main_request conversation_messages system_instructions available_tools =
     \<lparr>max_tokens = 4096, messages = conversation_messages, model = ''claude-sonnet-4-0'',
      system = (if system_instructions \<noteq> [] then Some system_instructions else None),
      tools = Some available_tools, tool_choice = Some ''auto''\<rparr>"

text \<open>The blocks of type \<^verbatim>\<open>tool_use\<close> of a response, each as (id, name, input).\<close>

fun tool_use_blocks :: "block list \<Rightarrow> (string \<times> string \<times> json) list" where
  "tool_use_blocks [] = []"
| "tool_use_blocks (ToolUse i n inp # bs) = (i, n, inp) # tool_use_blocks bs"
| "tool_use_blocks (b # bs) = tool_use_blocks bs"

text \<open>The \<^verbatim>\<open>for\<close> loop over the tool-use blocks: one call of \<^verbatim>\<open>use_tool\<close> after the
  other, one \<^verbatim>\<open>tool_result\<close> appended for each. An exception of a call leaves the loop.\<close>

fun execute_tools :: "'w env \<Rightarrow> (string \<times> string \<times> json) list \<Rightarrow> block list \<Rightarrow> 'w state \<Rightarrow> (exn + block list) \<times> 'w state" where
  "execute_tools env [] tool_results s = (Inr tool_results, s)"
| "execute_tools env ((i, n, inp) # bs) tool_results s =
     (case use_tool env n inp s of
        (Inl e, s1) \<Rightarrow> (Inl e, s1)
      | (Inr tool_result, s1) \<Rightarrow>
          execute_tools env bs (tool_results @ [ToolResult i (join nl tool_result)]) s1)"

text \<open>The texts of the blocks that have a text with something other than white space.\<close>

fun text_blocks :: "block list \<Rightarrow> string list" where
  "text_blocks [] = []"
| "text_blocks (Text t # bs) = (if strip t \<noteq> [] then t # text_blocks bs else text_blocks bs)"
| "text_blocks (b # bs) = text_blocks bs"

definition final_answer :: "block list \<Rightarrow> string" where
  "final_answer bs =
     (case text_blocks bs of
        [] \<Rightarrow> ''Assistant: [No text response available]''
      | t # ts \<Rightarrow> ''Assistant: '' @ t)"

text \<open>The inner \<^verbatim>\<open>while True\<close>. It has no bound: \<open>None\<close> is the loop that never ends.
  The result is the conversation at the \<^verbatim>\<open>break\<close>, or the exception that left the loop.\<close>

partial_function (option) tool_loop ::
  "'w env \<Rightarrow> tool_spec list \<Rightarrow> string \<Rightarrow> message list \<Rightarrow> 'w state
     \<Rightarrow> ((exn + message list) \<times> 'w state) option" where
  "tool_loop env available_tools system_instructions conversation_messages s =
     (case messages_create env
             (main_request conversation_messages system_instructions available_tools) s of
        (Inl e, s1) \<Rightarrow> Some (Inl e, s1)
      | (Inr resp, s1) \<Rightarrow>
          let conv1 = conversation_messages @
                        [\<lparr>role = Assistant, content = Blocks (response_content resp)\<rparr>]
          in if stop_reason resp = ''tool_use'' then
               (case execute_tools env (tool_use_blocks (response_content resp)) [] s1 of
                  (Inl e, s2) \<Rightarrow> Some (Inl e, s2)
                | (Inr tool_results, s2) \<Rightarrow>
                    tool_loop env available_tools system_instructions
                      (conv1 @ [\<lparr>role = User, content = Blocks tool_results\<rparr>]) s2)
             else Some (Inr conv1, print (final_answer (response_content resp)) s1))"

declare tool_loop.simps [code]



subsection \<open>Agent: the session\<close>









section \<open>Notions of the specification\<close>

text \<open>The names an LLM proposes: the strings of the decoded array, in its order.\<close>

fun proposed_names :: "json list \<Rightarrow> string list" where
  "proposed_names [] = []"
| "proposed_names (JStr n # xs) = n # proposed_names xs"
| "proposed_names (x # xs) = proposed_names xs"

text \<open>An object whose \<^verbatim>\<open>name\<close> is a name of the prompt catalog.\<close>

definition names_prompt :: "(string \<times> prompt) list \<Rightarrow> json \<Rightarrow> bool" where
  "names_prompt d p = (case getitem p ''name'' of Inr (JStr n) \<Rightarrow> dict_in n d | _ \<Rightarrow> False)"

text \<open>The array the LLM gives in answer to a selection request: the text of the first
  block of the response, between its first \<^verbatim>\<open>[\<close> and its last \<^verbatim>\<open>]\<close>, decoded.\<close>

definition decoded_reply :: "'w env \<Rightarrow> llm_request \<Rightarrow> 'w \<Rightarrow> json list option" where
  "decoded_reply env req w =
     (case llm_create env req w of
        (Inl e, w1) \<Rightarrow> None
      | (Inr resp, w1) \<Rightarrow>
          (case first_text resp of
             Inl e \<Rightarrow> None
           | Inr t \<Rightarrow>
               (case json_part (strip t) of
                  None \<Rightarrow> None
                | Some part \<Rightarrow>
                    (case json_loads env part of
                       Inl e \<Rightarrow> None
                     | Inr v \<Rightarrow> (case iterate v of Inl e \<Rightarrow> None | Inr xs \<Rightarrow> Some xs)))))"

text \<open>A response text that is not parseable as a JSON array: it has no \<^verbatim>\<open>[\<close> or no
  \<^verbatim>\<open>]\<close>, or the decoder rejects the bracketed part.\<close>

definition unparseable :: "'w env \<Rightarrow> string \<Rightarrow> bool" where
  "unparseable env t =
     (case json_part (strip t) of
        None \<Rightarrow> True
      | Some part \<Rightarrow> (case json_loads env part of Inl e \<Rightarrow> True | Inr v \<Rightarrow> False))"


text \<open>A part of a resource that \<^verbatim>\<open>_load_selected_resources\<close> turns into a block: text, or
  a blob of one of the four image types.\<close>

fun renderable :: "resource_contents \<Rightarrow> bool" where
  "renderable (TextResourceContents t) = True"
| "renderable (BlobResourceContents mime blob) =
     (case mime of None \<Rightarrow> False | Some m \<Rightarrow> m \<in> set image_types)"





section \<open>A concrete session\<close>

text \<open>One resource, one prompt and one tool; an LLM that answers from a script, its
  state the number of calls made so far; a decoder that knows the texts of the script.\<close>

definition math_constants :: resource where
  "math_constants = \<lparr>resource_name = ''math-constants'', uri = ''resource://math-constants'',
     description = Some ''Mathematical constants''\<rparr>"

definition step_by_step :: prompt where
  "step_by_step = \<lparr>prompt_name = ''step-by-step-math'', prompt_description = None,
     prompt_arguments = []\<rparr>"

definition add_tool :: tool_spec where
  "add_tool = \<lparr>tool_name = ''add'', tool_description = Some ''Add two numbers'',
     input_schema = JObj []\<rparr>"

definition names_text :: string where
  \<open>names_text = ''["math-constants", "nope"]''\<close>

definition objects_text :: string where
  \<open>objects_text = ''[{"arguments": {}}, {"name": "step-by-step-math", "arguments": {}}]''\<close>

definition truncated_text :: string where
  \<open>truncated_text = ''[{"name": "step-by-step-math", "arguments": {"steps": [1]''\<close>

definition good_object :: json where
  "good_object = JObj [(''name'', JStr ''step-by-step-math''), (''arguments'', JObj [])]"

definition example_loads :: "string \<Rightarrow> exn + json" where
  "example_loads t =
     (if t = names_text then Inr (JArr [JStr ''math-constants'', JStr ''nope''])
      else if t = objects_text then Inr (JArr [JObj [(''arguments'', JObj [])], good_object])
      else Inl (LibraryError ''JSONDecodeError''))"

definition scripted_llm :: "(exn + llm_response) list \<Rightarrow> llm_request \<Rightarrow> nat \<Rightarrow> (exn + llm_response) \<times> nat" where
  "scripted_llm script req n =
     (if n < length script then script ! n else Inl (LibraryError ''no reply scripted''), Suc n)"

definition example_env :: "(exn + llm_response) list \<Rightarrow> (exn + prompt list) \<Rightarrow> nat env" where
  "example_env script prompts_listing =
     \<lparr>llm_create = scripted_llm script,
      json_loads = example_loads,
      json_dumps = (\<lambda>j. ''{}''),
      model_dump_json = (\<lambda>p. ''{}''),
      session_open = (\<lambda>w. (Inr (), w)),
      session_close = (\<lambda>w. (Inr (), w)),
      list_tools = (\<lambda>w. (Inr [add_tool], w)),
      list_resources = (\<lambda>w. (Inr [math_constants], w)),
      list_prompts = (\<lambda>w. (prompts_listing, w)),
      call_tool = (\<lambda>n a w. (Inr [TextContent ''4''], w)),
      read_resource = (\<lambda>u w. (Inr [TextResourceContents ''pi = 3.14159''], w)),
      get_prompt = (\<lambda>n a w. (Inr [TextMessage ''Work step by step.''], w))\<rparr>"

definition example_state :: "nat state" where
  "example_state =
     \<lparr>world = 0, connected = True,
      available_resources = [(''math-constants'', math_constants)],
      available_prompts = [(''step-by-step-math'', step_by_step)],
      llm_log = [], tool_log = [], stdin = [], stdout = []\<rparr>"

definition empty_state :: "nat state" where
  "empty_state =
     \<lparr>world = 0, connected = True, available_resources = [], available_prompts = [],
      llm_log = [], tool_log = [], stdin = [], stdout = []\<rparr>"

definition names_reply :: llm_response where
  "names_reply = \<lparr>stop_reason = ''end_turn'',
     response_content = [Text (''Relevant: '' @ names_text @ '' and nothing else.'')]\<rparr>"

definition free_text_reply :: llm_response where
  "free_text_reply = \<lparr>stop_reason = ''end_turn'',
     response_content = [Text ''None of the resources seems relevant.'']\<rparr>"

definition truncated_reply :: llm_response where
  "truncated_reply = \<lparr>stop_reason = ''max_tokens'', response_content = [Text truncated_text]\<rparr>"

definition objects_reply :: llm_response where
  "objects_reply = \<lparr>stop_reason = ''end_turn'', response_content = [Text objects_text]\<rparr>"

definition user_turn :: message where
  "user_turn = \<lparr>role = User, content = Blocks [Text ''What is 2+2?'']\<rparr>"

definition blank_reply :: llm_response where
  "blank_reply = \<lparr>stop_reason = ''end_turn'',
     response_content = [OtherBlock ''thinking'', Text '' '']\<rparr>"

definition four_reply :: llm_response where
  "four_reply = \<lparr>stop_reason = ''end_turn'', response_content = [Text [CHR 0x0A], Text ''4'']\<rparr>"

definition add_request :: block where
  "add_request = ToolUse ''toolu_A'' ''add'' (JObj [(''a'', JInt 2), (''b'', JInt 2)])"

definition tool_use_reply :: llm_response where
  "tool_use_reply = \<lparr>stop_reason = ''tool_use'',
     response_content = [Text ''Let me add these.'', add_request]\<rparr>"


definition four_answer :: llm_response where
  "four_answer = \<lparr>stop_reason = ''end_turn'', response_content = [Text ''4'']\<rparr>"



definition old_notes :: resource where
  "old_notes = \<lparr>resource_name = ''old-notes'', uri = ''resource://old-notes'', description = None\<rparr>"

definition stale_state :: "nat state" where
  "stale_state =
     \<lparr>world = 0, connected = True,
      available_resources = [(''old-notes'', old_notes)],
      available_prompts = [(''step-by-step-math'', step_by_step)],
      llm_log = [], tool_log = [], stdin = [], stdout = []\<rparr>"











section \<open>Properties\<close>

subsection \<open>Selection\<close>

lemma filter_resources_eq:
  "filter_resources d xs = Inr rs \<Longrightarrow> rs = filter (\<lambda>n. dict_in n d) (proposed_names xs)"
proof (induction xs arbitrary: rs)
  case Nil
  then show ?case by simp
next
  case (Cons x xs)
  then show ?case
    by (cases x) (auto split: sum.splits if_splits)
qed

lemma filter_prompts_eq:
  "filter_prompts d xs = Inr ps \<Longrightarrow> ps = filter (names_prompt d) xs"
proof (induction xs arbitrary: ps)
  case Nil
  then show ?case by simp
next
  case (Cons x xs)
  from Cons.prems obtain n b ys where
    n: "getitem x ''name'' = Inr n" and b: "json_in n d = Inr b"
    and ys: "filter_prompts d xs = Inr ys" and ps: "ps = (if b then x # ys else ys)"
    by (auto split: sum.splits)
  have "names_prompt d x = b"
    using n b by (cases n) (auto simp: names_prompt_def)
  with Cons.IH [OF ys] ps show ?case by simp
qed

lemma filter_prompts_raises:
  "p \<in> set xs \<Longrightarrow> getitem p ''name'' = Inl e \<Longrightarrow> \<exists>e'. filter_prompts d xs = Inl e'"
  by (induction xs) (auto split: sum.splits)

lemma getitem_missing: "map_of kvs k = None \<Longrightarrow> getitem (JObj kvs) k = Inl (KeyError k)"
  by simp

text \<open>What \<^verbatim>\<open>_select_resources\<close> returns: always a list, which is empty or the
  filtered array of the reply.\<close>

lemma select_resources_cases:
  "\<exists>rs s1. select_resources env q s = (Inr rs, s1) \<and>
     (rs = [] \<or> (\<exists>resp w t part v xs.
        llm_create env (selection_request (resource_selection_prompt env q (available_resources s)))
          (world s) = (Inr resp, w)
        \<and> first_text resp = Inr t \<and> json_part (strip t) = Some part \<and> json_loads env part = Inr v
        \<and> iterate v = Inr xs \<and> filter_resources (available_resources s) xs = Inr rs))"
  unfolding select_resources_def select_resources_try_def messages_create_def
  by (auto split: prod.splits sum.splits option.splits)

lemma select_prompts_cases:
  "\<exists>ps s1. select_prompts env q s = (Inr ps, s1) \<and>
     (ps = [] \<or> (\<exists>resp w t part v xs.
        llm_create env (selection_request (prompt_selection_prompt env q (available_prompts s)))
          (world s) = (Inr resp, w)
        \<and> first_text resp = Inr t \<and> json_part (strip t) = Some part \<and> json_loads env part = Inr v
        \<and> iterate v = Inr xs \<and> filter_prompts (available_prompts s) xs = Inr ps))"
  unfolding select_prompts_def select_prompts_try_def messages_create_def
  by (auto split: prod.splits sum.splits option.splits)

text \<open>With a catalog that is not empty the selection does call the LLM, once.\<close>

lemma select_resources_logs_call:
  "available_resources s \<noteq> [] \<Longrightarrow>
     llm_log (snd (select_resources env q s)) =
       llm_log s @ [selection_request (resource_selection_prompt env q (available_resources s))]"
  unfolding select_resources_def select_resources_try_def messages_create_def
  by (auto split: prod.splits sum.splits option.splits)

lemma select_prompts_logs_call:
  "available_prompts s \<noteq> [] \<Longrightarrow>
     llm_log (snd (select_prompts env q s)) =
       llm_log s @ [selection_request (prompt_selection_prompt env q (available_prompts s))]"
  unfolding select_prompts_def select_prompts_try_def messages_create_def
  by (auto split: prod.splits sum.splits option.splits)

text \<open>
  Claim C3. For every catalog, every query and every behaviour of the LLM,
  \<^verbatim>\<open>_select_resources\<close> returns a list of names of the catalog; when it is not empty it
  is the array the LLM gave, filtered to the names of the catalog, in the LLM's order.
  \<^verbatim>\<open>_select_prompts\<close> returns objects whose \<^verbatim>\<open>name\<close> is a name of the prompt catalog;
  when it is not empty it is the array the LLM gave, filtered, in the LLM's order.
\<close>

theorem selection_within_catalog:
  "\<exists>rs s1 ps s2.
     select_resources env q s = (Inr rs, s1) \<and> select_prompts env q s = (Inr ps, s2)
     \<and> set rs \<subseteq> fst ` set (available_resources s)
     \<and> (rs = [] \<or> (\<exists>xs.
           decoded_reply env
             (selection_request (resource_selection_prompt env q (available_resources s))) (world s)
             = Some xs
           \<and> rs = filter (\<lambda>n. dict_in n (available_resources s)) (proposed_names xs)))
     \<and> (\<forall>p \<in> set ps. \<exists>n. getitem p ''name'' = Inr (JStr n) \<and> n \<in> fst ` set (available_prompts s))
     \<and> (ps = [] \<or> (\<exists>xs.
           decoded_reply env
             (selection_request (prompt_selection_prompt env q (available_prompts s))) (world s)
             = Some xs
           \<and> ps = filter (names_prompt (available_prompts s)) xs))"
proof -
  obtain rs s1 where rs: "select_resources env q s = (Inr rs, s1)"
    and rs_cases: "rs = [] \<or> (\<exists>resp w t part v xs.
        llm_create env (selection_request (resource_selection_prompt env q (available_resources s)))
          (world s) = (Inr resp, w)
        \<and> first_text resp = Inr t \<and> json_part (strip t) = Some part \<and> json_loads env part = Inr v
        \<and> iterate v = Inr xs \<and> filter_resources (available_resources s) xs = Inr rs)"
    using select_resources_cases [of env q s] by blast
  obtain ps s2 where ps: "select_prompts env q s = (Inr ps, s2)"
    and ps_cases: "ps = [] \<or> (\<exists>resp w t part v xs.
        llm_create env (selection_request (prompt_selection_prompt env q (available_prompts s)))
          (world s) = (Inr resp, w)
        \<and> first_text resp = Inr t \<and> json_part (strip t) = Some part \<and> json_loads env part = Inr v
        \<and> iterate v = Inr xs \<and> filter_prompts (available_prompts s) xs = Inr ps)"
    using select_prompts_cases [of env q s] by blast
  have r1: "rs = [] \<or> (\<exists>xs.
           decoded_reply env
             (selection_request (resource_selection_prompt env q (available_resources s))) (world s)
             = Some xs
           \<and> rs = filter (\<lambda>n. dict_in n (available_resources s)) (proposed_names xs))"
    using rs_cases by (auto simp: decoded_reply_def dest: filter_resources_eq)
  have p1: "ps = [] \<or> (\<exists>xs.
           decoded_reply env
             (selection_request (prompt_selection_prompt env q (available_prompts s))) (world s)
             = Some xs
           \<and> ps = filter (names_prompt (available_prompts s)) xs)"
    using ps_cases by (auto simp: decoded_reply_def dest: filter_prompts_eq)
  have r2: "set rs \<subseteq> fst ` set (available_resources s)"
    using r1 by (auto simp: dict_in_def)
  have p2: "\<forall>p \<in> set ps. \<exists>n. getitem p ''name'' = Inr (JStr n) \<and> n \<in> fst ` set (available_prompts s)"
    using p1 by (auto simp: names_prompt_def dict_in_def split: sum.splits json.splits)
  show ?thesis using rs ps r1 r2 p1 p2 by blast
qed

text \<open>The LLM proposes \<^verbatim>\<open>math-constants\<close> and \<^verbatim>\<open>nope\<close>; only the first is in the
  catalog, and only it is returned.\<close>

theorem selection_within_catalog_witness:
  "fst (select_resources (example_env [Inr names_reply] (Inr [])) ''What is pi?'' example_state)
     = Inr [''math-constants'']
   \<and> (\<exists>rs s1 ps s2.
     select_resources (example_env [Inr names_reply] (Inr [])) ''What is pi?'' example_state = (Inr rs, s1)
     \<and> select_prompts (example_env [Inr names_reply] (Inr [])) ''What is pi?'' example_state = (Inr ps, s2)
     \<and> set rs \<subseteq> {''math-constants''}
     \<and> (\<forall>p \<in> set ps. \<exists>n. getitem p ''name'' = Inr (JStr n) \<and> n \<in> {''step-by-step-math''}))"
proof -
  have 1: "fst (select_resources (example_env [Inr names_reply] (Inr [])) ''What is pi?'' example_state)
     = Inr [''math-constants'']"
    by code_simp
  have 2: "fst ` set (available_resources example_state) = {''math-constants''}"
    by (simp add: example_state_def)
  have 3: "fst ` set (available_prompts example_state) = {''step-by-step-math''}"
    by (simp add: example_state_def)
  show ?thesis
    using selection_within_catalog
            [of "example_env [Inr names_reply] (Inr [])" "''What is pi?''" example_state]
    unfolding 2 3 using 1 by blast
qed

text \<open>
  Claim C8. With an empty resource catalog \<^verbatim>\<open>_select_resources\<close> returns the empty list
  and leaves the state as it was: nothing is added to the log of LLM requests and the
  state of the LLM service is untouched. Likewise \<^verbatim>\<open>_select_prompts\<close> with an empty
  prompt catalog.
\<close>

theorem empty_catalog_selects_nothing_without_llm_call:
  "(available_resources s = [] \<longrightarrow> select_resources env q s = (Inr [], s))
   \<and> (available_prompts s = [] \<longrightarrow> select_prompts env q s = (Inr [], s))"
  by (simp add: select_resources_def select_prompts_def)

theorem empty_catalog_witness:
  "available_resources empty_state = [] \<and> available_prompts empty_state = []
   \<and> select_resources (example_env [] (Inr [])) ''What is 2+2?'' empty_state = (Inr [], empty_state)
   \<and> select_prompts (example_env [] (Inr [])) ''What is 2+2?'' empty_state = (Inr [], empty_state)
   \<and> llm_log empty_state = []"
  using empty_catalog_selects_nothing_without_llm_call
          [of empty_state "example_env [] (Inr [])" "''What is 2+2?''"]
  by (simp add: empty_state_def)

text \<open>
  Claim C7. When the text the LLM returns has no \<^verbatim>\<open>[\<close> or no \<^verbatim>\<open>]\<close>, or the decoder
  rejects the bracketed part, \<^verbatim>\<open>_select_resources\<close> and \<^verbatim>\<open>_select_prompts\<close> return the
  empty list; and whatever the LLM does, neither raises an exception.
\<close>

theorem unparseable_reply_selects_nothing:
  "(llm_create env (selection_request (resource_selection_prompt env q (available_resources s))) (world s)
       = (Inr resp, w) \<and> first_text resp = Inr t \<and> unparseable env t
      \<longrightarrow> fst (select_resources env q s) = Inr [])
   \<and> (llm_create env (selection_request (prompt_selection_prompt env q (available_prompts s))) (world s)
       = (Inr resp', w') \<and> first_text resp' = Inr t' \<and> unparseable env t'
      \<longrightarrow> fst (select_prompts env q s) = Inr [])
   \<and> (\<exists>rs. fst (select_resources env q s) = Inr rs)
   \<and> (\<exists>ps. fst (select_prompts env q s) = Inr ps)"
proof -
  have a: "fst (select_resources env q s) = Inr []"
    if "llm_create env (selection_request (resource_selection_prompt env q (available_resources s))) (world s)
       = (Inr resp, w)" "first_text resp = Inr t" "unparseable env t"
    using that
    unfolding select_resources_def select_resources_try_def messages_create_def unparseable_def
    by (auto split: prod.splits sum.splits option.splits)
  have b: "fst (select_prompts env q s) = Inr []"
    if "llm_create env (selection_request (prompt_selection_prompt env q (available_prompts s))) (world s)
       = (Inr resp', w')" "first_text resp' = Inr t'" "unparseable env t'"
    using that
    unfolding select_prompts_def select_prompts_try_def messages_create_def unparseable_def
    by (auto split: prod.splits sum.splits option.splits)
  have c: "\<exists>rs. fst (select_resources env q s) = Inr rs"
    using select_resources_cases [of env q s] by auto
  have d: "\<exists>ps. fst (select_prompts env q s) = Inr ps"
    using select_prompts_cases [of env q s] by auto
  show ?thesis using a b c d by blast
qed

text \<open>A reply without brackets to the resource selection, a reply cut off inside the
  array to the prompt selection.\<close>

theorem unparseable_reply_witness:
  "unparseable (example_env [Inr free_text_reply] (Inr [])) ''None of the resources seems relevant.''
   \<and> fst (select_resources (example_env [Inr free_text_reply] (Inr [])) ''What is pi?'' example_state) = Inr []
   \<and> unparseable (example_env [Inr truncated_reply] (Inr [])) truncated_text
   \<and> fst (select_prompts (example_env [Inr truncated_reply] (Inr [])) ''What is pi?'' example_state) = Inr []"
proof -
  have 1: "llm_create (example_env [Inr free_text_reply] (Inr []))
             (selection_request (resource_selection_prompt (example_env [Inr free_text_reply] (Inr []))
                ''What is pi?'' (available_resources example_state))) (world example_state)
           = (Inr free_text_reply, 1)"
    by (simp add: example_env_def scripted_llm_def example_state_def)
  have 2: "first_text free_text_reply = Inr ''None of the resources seems relevant.''"
    by (simp add: first_text_def free_text_reply_def)
  have 3: "unparseable (example_env [Inr free_text_reply] (Inr [])) ''None of the resources seems relevant.''"
    by code_simp
  have 4: "llm_create (example_env [Inr truncated_reply] (Inr []))
             (selection_request (prompt_selection_prompt (example_env [Inr truncated_reply] (Inr []))
                ''What is pi?'' (available_prompts example_state))) (world example_state)
           = (Inr truncated_reply, 1)"
    by (simp add: example_env_def scripted_llm_def example_state_def)
  have 5: "first_text truncated_reply = Inr truncated_text"
    by (simp add: first_text_def truncated_reply_def)
  have 6: "unparseable (example_env [Inr truncated_reply] (Inr [])) truncated_text"
    by code_simp
  show ?thesis
    using unparseable_reply_selects_nothing
            [of "example_env [Inr free_text_reply] (Inr [])" "''What is pi?''" example_state
                free_text_reply 1 "''None of the resources seems relevant.''"]
          unparseable_reply_selects_nothing
            [of "example_env [Inr truncated_reply] (Inr [])" "''What is pi?''" example_state
                _ _ _ truncated_reply 1 truncated_text]
          1 2 3 4 5 6
    by blast
qed

text \<open>
  Claim C6, as the code has it. When the array the LLM gave holds an object without the
  key \<^verbatim>\<open>name\<close>, the \<^verbatim>\<open>KeyError\<close> of the list comprehension is caught by the handler
  of \<^verbatim>\<open>_select_prompts\<close>: the whole selection is empty, and no exception reaches the
  caller.
\<close>

theorem malformed_object_empties_prompt_selection:
  assumes "decoded_reply env
             (selection_request (prompt_selection_prompt env q (available_prompts s))) (world s) = Some xs"
      and "JObj kvs \<in> set xs"
      and "map_of kvs ''name'' = None"
  shows "fst (select_prompts env q s) = Inr []"
proof -
  obtain e where "filter_prompts (available_prompts s) xs = Inl e"
    using filter_prompts_raises [OF assms(2) getitem_missing [OF assms(3)]] by blast
  with assms(1) show ?thesis
    unfolding select_prompts_def select_prompts_try_def messages_create_def decoded_reply_def
    by (auto split: prod.splits sum.splits option.splits)
qed

theorem malformed_object_witness:
  "decoded_reply (example_env [Inr objects_reply] (Inr []))
      (selection_request (prompt_selection_prompt (example_env [Inr objects_reply] (Inr []))
          ''What is pi?'' (available_prompts example_state))) (world example_state)
     = Some [JObj [(''arguments'', JObj [])], good_object]
   \<and> map_of [(''arguments'', JObj [])] ''name'' = None
   \<and> fst (select_prompts (example_env [Inr objects_reply] (Inr [])) ''What is pi?'' example_state) = Inr []"
proof -
  have 1: "decoded_reply (example_env [Inr objects_reply] (Inr []))
      (selection_request (prompt_selection_prompt (example_env [Inr objects_reply] (Inr []))
          ''What is pi?'' (available_prompts example_state))) (world example_state)
     = Some [JObj [(''arguments'', JObj [])], good_object]"
    by code_simp
  have 2: "JObj [(''arguments'', JObj [])] \<in> set [JObj [(''arguments'', JObj [])], good_object]"
    by simp
  have 3: "map_of [(''arguments'', JObj [])] ''name'' = None"
    by simp
  show ?thesis
    using malformed_object_empties_prompt_selection [OF 1 2 3] 1 3 by simp
qed

text \<open>The claim as it was stated fails: the LLM gives an object without \<^verbatim>\<open>name\<close> and
  then a well-formed object that names a prompt of the catalog; the well-formed object
  is not returned, the selection is empty.\<close>

theorem malformed_object_counterexample:
  "decoded_reply (example_env [Inr objects_reply] (Inr []))
      (selection_request (prompt_selection_prompt (example_env [Inr objects_reply] (Inr []))
          ''What is pi?'' (available_prompts example_state))) (world example_state)
     = Some [JObj [(''arguments'', JObj [])], good_object]
   \<and> names_prompt (available_prompts example_state) good_object
   \<and> fst (select_prompts (example_env [Inr objects_reply] (Inr [])) ''What is pi?'' example_state) = Inr []"
  by code_simp

subsection \<open>Loading resources\<close>

lemma render_contents_extends:
  "\<exists>rest. snd (render_contents name cs acc) = acc @ rest"
proof (induction cs arbitrary: acc)
  case Nil
  then show ?case by simp
next
  case (Cons c cs)
  show ?case
  proof (cases c)
    case (TextResourceContents t)
    obtain rest where "snd (render_contents name cs (acc @ [Text (''[Resource: '' @ name @ '']'' @ nl @ t)]))
        = (acc @ [Text (''[Resource: '' @ name @ '']'' @ nl @ t)]) @ rest"
      using Cons.IH by blast
    with TextResourceContents show ?thesis by simp
  next
    case (BlobResourceContents mime blob)
    show ?thesis
    proof (cases "\<exists>m. mime = Some m \<and> m \<in> set image_types")
      case True
      then obtain m where m: "mime = Some m" "m \<in> set image_types" by blast
      obtain rest where "snd (render_contents name cs (acc @ [Image m blob])) = (acc @ [Image m blob]) @ rest"
        using Cons.IH by blast
      with BlobResourceContents m show ?thesis by simp
    next
      case False
      with BlobResourceContents show ?thesis by (auto split: option.splits)
    qed
  qed
qed

lemma render_contents_text_part:
  "\<forall>c \<in> set pre. renderable c \<Longrightarrow>
     \<exists>bs rest. length bs = length pre \<and>
       snd (render_contents name (pre @ TextResourceContents t # post) acc)
         = acc @ bs @ Text (''[Resource: '' @ name @ '']'' @ nl @ t) # rest"
proof (induction pre arbitrary: acc)
  case Nil
  obtain rest where "snd (render_contents name post (acc @ [Text (''[Resource: '' @ name @ '']'' @ nl @ t)]))
      = (acc @ [Text (''[Resource: '' @ name @ '']'' @ nl @ t)]) @ rest"
    using render_contents_extends by blast
  then show ?case by simp
next
  case (Cons c pre)
  have pre: "\<forall>c \<in> set pre. renderable c" and c: "renderable c"
    using Cons.prems by simp_all
  obtain b where b: "render_contents name (c # pre @ TextResourceContents t # post) acc
      = render_contents name (pre @ TextResourceContents t # post) (acc @ [b])"
    using c by (cases c) (auto split: option.splits)
  obtain bs rest where "length bs = length pre"
    and "snd (render_contents name (pre @ TextResourceContents t # post) (acc @ [b]))
         = (acc @ [b]) @ bs @ Text (''[Resource: '' @ name @ '']'' @ nl @ t) # rest"
    using Cons.IH [OF pre] by blast
  then have "length (b # bs) = length (c # pre) \<and>
     snd (render_contents name ((c # pre) @ TextResourceContents t # post) acc)
       = acc @ (b # bs) @ Text (''[Resource: '' @ name @ '']'' @ nl @ t) # rest"
    using b by simp
  then show ?case by blast
qed

text \<open>
  Claim C9. When a resource of the catalog is loaded and a part of its fetched content is
  text, the block produced for that part is a text block holding the tag
  \<^verbatim>\<open>[Resource: <name>]\<close>, a newline, and then the text of the part, unchanged. (The parts
  before it are text or known images: the loop stops at a part of any other kind.)
\<close>

theorem text_resource_kept_verbatim:
  assumes "map_of (available_resources s) name = Some r"
      and "connected s"
      and "read_resource env (uri r) (world s) = (Inr (pre @ TextResourceContents t # post), w)"
      and "\<forall>c \<in> set pre. renderable c"
  shows "\<exists>blocks s1. load_selected_resources env [name] s = (Inr blocks, s1)
           \<and> length pre < length blocks
           \<and> blocks ! length pre = Text (''[Resource: '' @ name @ '']'' @ [CHR 0x0A] @ t)"
proof -
  obtain bs rest where len: "length bs = length pre"
    and snd: "snd (render_contents name (pre @ TextResourceContents t # post) [])
         = [] @ bs @ Text (''[Resource: '' @ name @ '']'' @ nl @ t) # rest"
    using render_contents_text_part [OF assms(4)] by blast
  have "fst (load_selected_resources env [name] s)
          = Inr (bs @ Text (''[Resource: '' @ name @ '']'' @ nl @ t) # rest)"
    using assms(1-3) snd
    by (simp add: load_selected_resources_def get_resource_def print_def)
  moreover have "(bs @ Text (''[Resource: '' @ name @ '']'' @ nl @ t) # rest) ! length pre
      = Text (''[Resource: '' @ name @ '']'' @ [CHR 0x0A] @ t)"
    using len by (simp add: nth_append nl_def)
  ultimately show ?thesis using len
    by (cases "load_selected_resources env [name] s") auto
qed

text \<open>The resource \<^verbatim>\<open>math-constants\<close>, whose content is one text part.\<close>

theorem text_resource_witness:
  "map_of (available_resources example_state) ''math-constants'' = Some math_constants
   \<and> connected example_state
   \<and> (\<exists>blocks s1. load_selected_resources (example_env [] (Inr [])) [''math-constants''] example_state
          = (Inr blocks, s1)
        \<and> blocks ! 0 = Text (''[Resource: math-constants]'' @ [CHR 0x0A] @ ''pi = 3.14159''))"
proof -
  have 1: "map_of (available_resources example_state) ''math-constants'' = Some math_constants"
    by (simp add: example_state_def)
  have 2: "connected example_state"
    by (simp add: example_state_def)
  have 3: "read_resource (example_env [] (Inr [])) (uri math_constants) (world example_state)
     = (Inr ([] @ TextResourceContents ''pi = 3.14159'' # []), 0)"
    by (simp add: example_env_def example_state_def)
  have 4: "\<forall>c \<in> set ([] :: resource_contents list). renderable c"
    by simp
  show ?thesis
    using text_resource_kept_verbatim [OF 1 2 3 4] 1 2 by auto
qed

subsection \<open>The tool-use loop\<close>

lemma strip_empty_iff: "strip t = [] \<longleftrightarrow> (\<forall>c \<in> set t. is_space c)"
proof
  assume "strip t = []"
  then have a: "\<forall>c \<in> set (dropWhile is_space t). is_space c"
    by (simp add: strip_def dropWhile_eq_Nil_conv)
  show "\<forall>c \<in> set t. is_space c"
  proof (rule ccontr)
    assume "\<not> (\<forall>c \<in> set t. is_space c)"
    then have ne: "dropWhile is_space t \<noteq> []"
      by (simp add: dropWhile_eq_Nil_conv)
    then have "\<not> is_space (hd (dropWhile is_space t))"
      by (rule hd_dropWhile)
    moreover have "hd (dropWhile is_space t) \<in> set (dropWhile is_space t)"
      using ne by simp
    ultimately show False using a by blast
  qed
next
  assume "\<forall>c \<in> set t. is_space c"
  then show "strip t = []"
    by (auto simp: strip_def dropWhile_eq_Nil_conv dest: set_dropWhileD)
qed

lemma text_blocks_none:
  "(\<forall>t. Text t \<in> set bs \<longrightarrow> (\<forall>c \<in> set t. is_space c)) \<Longrightarrow> text_blocks bs = []"
proof (induction bs)
  case Nil
  then show ?case by simp
next
  case (Cons b bs)
  then show ?case by (cases b) (auto simp: strip_empty_iff)
qed

lemma text_blocks_first:
  "(\<forall>u. Text u \<in> set pre \<longrightarrow> (\<forall>c \<in> set u. is_space c)) \<Longrightarrow> \<exists>c \<in> set t. \<not> is_space c \<Longrightarrow>
     text_blocks (pre @ Text t # post) = t # text_blocks post"
proof (induction pre)
  case Nil
  then show ?case by (auto simp: strip_empty_iff)
next
  case (Cons b pre)
  then show ?case by (cases b) (auto simp: strip_empty_iff)
qed

lemma tool_loop_final:
  assumes "messages_create env (main_request conv sys tls) s = (Inr resp, s1)"
      and "stop_reason resp \<noteq> ''tool_use''"
  shows "tool_loop env tls sys conv s =
           Some (Inr (conv @ [\<lparr>role = Assistant, content = Blocks (response_content resp)\<rparr>]),
                 print (final_answer (response_content resp)) s1)"
  by (subst tool_loop.simps) (simp add: assms)


lemma tool_loop_round:
  assumes "messages_create env (main_request conv sys tls) s = (Inr resp, s1)"
      and "stop_reason resp = ''tool_use''"
      and "execute_tools env (tool_use_blocks (response_content resp)) [] s1 = (Inr results, s2)"
  shows "tool_loop env tls sys conv s =
           tool_loop env tls sys
             (conv @ [\<lparr>role = Assistant, content = Blocks (response_content resp)\<rparr>,
                      \<lparr>role = User, content = Blocks results\<rparr>]) s2"
  by (subst tool_loop.simps) (simp add: assms)

text \<open>
  Claim C10. When the LLM answers with a stop reason other than \<^verbatim>\<open>tool_use\<close>, the
  tool-use loop ends normally after appending the assistant turn, and prints one line
  \<^verbatim>\<open>Assistant: <answer>\<close>: the answer is \<^verbatim>\<open>[No text response available]\<close> when no text
  block of the response has a character that is not white space, and otherwise the text of
  the first text block that has one.
\<close>

theorem final_answer_displayed:
  assumes "llm_create env (main_request conv sys tls) (world s) = (Inr resp, w)"
      and "stop_reason resp \<noteq> ''tool_use''"
  shows "\<exists>s1 answer.
           tool_loop env tls sys conv s =
             Some (Inr (conv @ [\<lparr>role = Assistant, content = Blocks (response_content resp)\<rparr>]), s1)
           \<and> stdout s1 = stdout s @ [''Assistant: '' @ answer]
           \<and> ((\<forall>t. Text t \<in> set (response_content resp) \<longrightarrow> (\<forall>c \<in> set t. is_space c))
                 \<longrightarrow> answer = ''[No text response available]'')
           \<and> (\<forall>pre t post. response_content resp = pre @ Text t # post
                  \<and> (\<forall>u. Text u \<in> set pre \<longrightarrow> (\<forall>c \<in> set u. is_space c))
                  \<and> (\<exists>c \<in> set t. \<not> is_space c)
                 \<longrightarrow> answer = t)"
proof -
  define s1 where "s1 = s\<lparr>world := w, llm_log := llm_log s @ [main_request conv sys tls]\<rparr>"
  define answer where "answer = (case text_blocks (response_content resp) of
      [] \<Rightarrow> ''[No text response available]'' | t # ts \<Rightarrow> t)"
  have mc: "messages_create env (main_request conv sys tls) s = (Inr resp, s1)"
    using assms(1) by (simp add: messages_create_def s1_def)
  have fa: "final_answer (response_content resp) = ''Assistant: '' @ answer"
    by (simp add: final_answer_def answer_def split: list.splits)
  have a: "tool_loop env tls sys conv s =
             Some (Inr (conv @ [\<lparr>role = Assistant, content = Blocks (response_content resp)\<rparr>]),
                   print (''Assistant: '' @ answer) s1)"
    using tool_loop_final [OF mc assms(2)] fa by simp
  have b: "stdout (print (''Assistant: '' @ answer) s1) = stdout s @ [''Assistant: '' @ answer]"
    by (simp add: print_def s1_def)
  have c: "answer = ''[No text response available]''"
    if "\<forall>t. Text t \<in> set (response_content resp) \<longrightarrow> (\<forall>c \<in> set t. is_space c)"
    using text_blocks_none [OF that] by (simp add: answer_def)
  have d: "answer = t"
    if "response_content resp = pre @ Text t # post"
       "\<forall>u. Text u \<in> set pre \<longrightarrow> (\<forall>c \<in> set u. is_space c)" "\<exists>c \<in> set t. \<not> is_space c"
    for pre t post
    using text_blocks_first [OF that(2,3), of post] that(1) by (simp add: answer_def)
  show ?thesis using a b c d by blast
qed

text \<open>A response with only a thinking block and a blank text; a response whose first
  text is a newline and whose second is \<^verbatim>\<open>4\<close>.\<close>

theorem final_answer_witness:
  "(\<exists>s1. tool_loop (example_env [Inr blank_reply] (Inr [])) [add_tool] [] [user_turn] example_state
            = Some (Inr [user_turn, \<lparr>role = Assistant, content = Blocks (response_content blank_reply)\<rparr>], s1)
         \<and> stdout s1 = [''Assistant: [No text response available]''])
   \<and> (\<exists>s1. tool_loop (example_env [Inr four_reply] (Inr [])) [add_tool] [] [user_turn] example_state
            = Some (Inr [user_turn, \<lparr>role = Assistant, content = Blocks (response_content four_reply)\<rparr>], s1)
         \<and> stdout s1 = [''Assistant: 4''])"
proof -
  have 1: "llm_create (example_env [Inr blank_reply] (Inr [])) (main_request [user_turn] [] [add_tool])
             (world example_state) = (Inr blank_reply, 1)"
    by (simp add: example_env_def scripted_llm_def example_state_def)
  have 2: "stop_reason blank_reply \<noteq> ''tool_use''"
    by (simp add: blank_reply_def)
  have 3: "\<forall>t. Text t \<in> set (response_content blank_reply) \<longrightarrow> (\<forall>c \<in> set t. is_space c)"
    by (simp add: blank_reply_def is_space_def)
  have 4: "llm_create (example_env [Inr four_reply] (Inr [])) (main_request [user_turn] [] [add_tool])
             (world example_state) = (Inr four_reply, 1)"
    by (simp add: example_env_def scripted_llm_def example_state_def)
  have 5: "stop_reason four_reply \<noteq> ''tool_use''"
    by (simp add: four_reply_def)
  have 6: "response_content four_reply = [Text [CHR 0x0A]] @ Text ''4'' # []
      \<and> (\<forall>u. Text u \<in> set [Text [CHR 0x0A]] \<longrightarrow> (\<forall>c \<in> set u. is_space c))
      \<and> (\<exists>c \<in> set ''4''. \<not> is_space c)"
    by (simp add: four_reply_def is_space_def)
  have 7: "stdout example_state = []"
    by (simp add: example_state_def)
  obtain s1 answer where a:
    "tool_loop (example_env [Inr blank_reply] (Inr [])) [add_tool] [] [user_turn] example_state =
       Some (Inr ([user_turn] @ [\<lparr>role = Assistant, content = Blocks (response_content blank_reply)\<rparr>]), s1)"
    "stdout s1 = stdout example_state @ [''Assistant: '' @ answer]"
    "(\<forall>t. Text t \<in> set (response_content blank_reply) \<longrightarrow> (\<forall>c \<in> set t. is_space c))
       \<longrightarrow> answer = ''[No text response available]''"
    using final_answer_displayed [OF 1 2] by blast
  have a1: "answer = ''[No text response available]''"
    using a(3) 3 by blast
  obtain s2 answer2 where b:
    "tool_loop (example_env [Inr four_reply] (Inr [])) [add_tool] [] [user_turn] example_state =
       Some (Inr ([user_turn] @ [\<lparr>role = Assistant, content = Blocks (response_content four_reply)\<rparr>]), s2)"
    "stdout s2 = stdout example_state @ [''Assistant: '' @ answer2]"
    "\<forall>pre t post. response_content four_reply = pre @ Text t # post
        \<and> (\<forall>u. Text u \<in> set pre \<longrightarrow> (\<forall>c \<in> set u. is_space c))
        \<and> (\<exists>c \<in> set t. \<not> is_space c)
       \<longrightarrow> answer2 = t"
    using final_answer_displayed [OF 4 5] by blast
  have b1: "answer2 = ''4''"
    using b(3) 6 by blast
  have "\<exists>s1. tool_loop (example_env [Inr blank_reply] (Inr [])) [add_tool] [] [user_turn] example_state
            = Some (Inr [user_turn, \<lparr>role = Assistant, content = Blocks (response_content blank_reply)\<rparr>], s1)
         \<and> stdout s1 = [''Assistant: [No text response available]'']"
    using a(1,2) a1 7 by simp
  moreover have "\<exists>s1. tool_loop (example_env [Inr four_reply] (Inr [])) [add_tool] [] [user_turn] example_state
            = Some (Inr [user_turn, \<lparr>role = Assistant, content = Blocks (response_content four_reply)\<rparr>], s1)
         \<and> stdout s1 = [''Assistant: 4'']"
    using b(1,2) b1 7 by simp
  ultimately show ?thesis by blast
qed









text \<open>
  Claim C2. The LLM answers the first request with stop reason \<^verbatim>\<open>tool_use\<close> and one
  tool-invocation request, the tool call returns, and the LLM answers the second request
  with \<^verbatim>\<open>end_turn\<close>. Then the tool-use loop ends normally; it has called the tool once
  and the LLM twice, has printed one answer, and the conversation at its exit has the four
  turns: the initial user turn, the assistant turn with the request, the user turn with the
  tool result, and the final assistant turn.
\<close>

theorem one_tool_round_then_answer:
  assumes "connected s"
      and "llm_create env (main_request [u] sys tls) (world s) = (Inr r1, w1)"
      and "stop_reason r1 = ''tool_use''"
      and "tool_use_blocks (response_content r1) = [(i, n, inp)]"
      and "call_tool env n inp w1 = (Inr cs, w2)"
      and "llm_create env
             (main_request
                [u, \<lparr>role = Assistant, content = Blocks (response_content r1)\<rparr>,
                 \<lparr>role = User, content = Blocks [ToolResult i (join nl (concat (map tool_strings cs)))]\<rparr>]
                sys tls) w2 = (Inr r2, w3)"
      and "stop_reason r2 = ''end_turn''"
  shows "\<exists>conv s1.
           tool_loop env tls sys [u] s = Some (Inr conv, s1)
           \<and> length conv = 4
           \<and> conv = [u, \<lparr>role = Assistant, content = Blocks (response_content r1)\<rparr>,
                     \<lparr>role = User, content = Blocks [ToolResult i (join nl (concat (map tool_strings cs)))]\<rparr>,
                     \<lparr>role = Assistant, content = Blocks (response_content r2)\<rparr>]
           \<and> tool_log s1 = tool_log s @ [(n, inp)]
           \<and> length (llm_log s1) = length (llm_log s) + 2
           \<and> stdout s1 = stdout s @ [final_answer (response_content r2)]"
proof -
  define a1 where "a1 = \<lparr>role = Assistant, content = Blocks (response_content r1)\<rparr>"
  define t1 where "t1 = \<lparr>role = User,
      content = Blocks [ToolResult i (join nl (concat (map tool_strings cs)))]\<rparr>"
  define sa where "sa = s\<lparr>world := w1, llm_log := llm_log s @ [main_request [u] sys tls]\<rparr>"
  define sb where "sb = sa\<lparr>world := w2, tool_log := tool_log sa @ [(n, inp)]\<rparr>"
  define sc where "sc = sb\<lparr>world := w3, llm_log := llm_log sb @ [main_request [u, a1, t1] sys tls]\<rparr>"
  have m1: "messages_create env (main_request [u] sys tls) s = (Inr r1, sa)"
    using assms(2) by (simp add: messages_create_def sa_def)
  have ex: "execute_tools env (tool_use_blocks (response_content r1)) [] sa
              = (Inr [ToolResult i (join nl (concat (map tool_strings cs)))], sb)"
    using assms(1,4,5) by (simp add: use_tool_def sa_def sb_def)
  have m2: "messages_create env (main_request ([u] @ [a1, t1]) sys tls) sb = (Inr r2, sc)"
    using assms(6) by (simp add: messages_create_def sb_def sc_def a1_def t1_def)
  have ne: "stop_reason r2 \<noteq> ''tool_use''"
    using assms(7) by simp
  have "tool_loop env tls sys [u] s = tool_loop env tls sys ([u] @ [a1, t1]) sb"
    using tool_loop_round [OF m1 assms(3) ex] by (simp add: a1_def t1_def)
  also have "\<dots> = Some (Inr (([u] @ [a1, t1]) @ [\<lparr>role = Assistant, content = Blocks (response_content r2)\<rparr>]),
                         print (final_answer (response_content r2)) sc)"
    by (rule tool_loop_final [OF m2 ne])
  finally have loop: "tool_loop env tls sys [u] s =
      Some (Inr [u, a1, t1, \<lparr>role = Assistant, content = Blocks (response_content r2)\<rparr>],
            print (final_answer (response_content r2)) sc)"
    by simp
  have "tool_log (print (final_answer (response_content r2)) sc) = tool_log s @ [(n, inp)]"
    by (simp add: print_def sc_def sb_def sa_def)
  moreover have "length (llm_log (print (final_answer (response_content r2)) sc)) = length (llm_log s) + 2"
    by (simp add: print_def sc_def sb_def sa_def)
  moreover have "stdout (print (final_answer (response_content r2)) sc)
      = stdout s @ [final_answer (response_content r2)]"
    by (simp add: print_def sc_def sb_def sa_def)
  ultimately show ?thesis
    using loop unfolding a1_def t1_def by simp
qed

text \<open>The script: a request to add 2 and 2, then the answer 4.\<close>

theorem one_tool_round_witness:
  "connected example_state
   \<and> tool_use_blocks (response_content tool_use_reply)
       = [(''toolu_A'', ''add'', JObj [(''a'', JInt 2), (''b'', JInt 2)])]
   \<and> (\<exists>conv s1.
         tool_loop (example_env [Inr tool_use_reply, Inr four_answer] (Inr [])) [add_tool] [] [user_turn]
           example_state = Some (Inr conv, s1)
         \<and> length conv = 4
         \<and> tool_log s1 = [(''add'', JObj [(''a'', JInt 2), (''b'', JInt 2)])]
         \<and> length (llm_log s1) = 2
         \<and> stdout s1 = [''Assistant: 4''])"
proof -
  have 1: "connected example_state"
    by (simp add: example_state_def)
  have 2: "llm_create (example_env [Inr tool_use_reply, Inr four_answer] (Inr []))
             (main_request [user_turn] [] [add_tool]) (world example_state) = (Inr tool_use_reply, 1)"
    by (simp add: example_env_def scripted_llm_def example_state_def)
  have 3: "stop_reason tool_use_reply = ''tool_use''"
    by (simp add: tool_use_reply_def)
  have 4: "tool_use_blocks (response_content tool_use_reply)
       = [(''toolu_A'', ''add'', JObj [(''a'', JInt 2), (''b'', JInt 2)])]"
    by (simp add: tool_use_reply_def add_request_def)
  have 5: "call_tool (example_env [Inr tool_use_reply, Inr four_answer] (Inr [])) ''add''
             (JObj [(''a'', JInt 2), (''b'', JInt 2)]) 1 = (Inr [TextContent ''4''], 1)"
    by (simp add: example_env_def)
  have 6: "llm_create (example_env [Inr tool_use_reply, Inr four_answer] (Inr []))
             (main_request
                [user_turn, \<lparr>role = Assistant, content = Blocks (response_content tool_use_reply)\<rparr>,
                 \<lparr>role = User, content = Blocks [ToolResult ''toolu_A''
                     (join nl (concat (map tool_strings [TextContent ''4''])))]\<rparr>]
                [] [add_tool]) 1 = (Inr four_answer, 2)"
    by (simp add: example_env_def scripted_llm_def)
  have 7: "stop_reason four_answer = ''end_turn''"
    by (simp add: four_answer_def)
  have 8: "final_answer (response_content four_answer) = ''Assistant: 4''"
    by (simp add: four_answer_def final_answer_def strip_def is_space_def)
  have 9: "tool_log example_state = [] \<and> llm_log example_state = [] \<and> stdout example_state = []"
    by (simp add: example_state_def)
  obtain conv s1 where r:
    "tool_loop (example_env [Inr tool_use_reply, Inr four_answer] (Inr [])) [add_tool] [] [user_turn]
       example_state = Some (Inr conv, s1)"
    "length conv = 4"
    "tool_log s1 = tool_log example_state @ [(''add'', JObj [(''a'', JInt 2), (''b'', JInt 2)])]"
    "length (llm_log s1) = length (llm_log example_state) + 2"
    "stdout s1 = stdout example_state @ [final_answer (response_content four_answer)]"
    using one_tool_round_then_answer [OF 1 2 3 4 5 6 7] by blast
  have "tool_log s1 = [(''add'', JObj [(''a'', JInt 2), (''b'', JInt 2)])]"
       "length (llm_log s1) = 2" "stdout s1 = [''Assistant: 4'']"
    using r(3-5) 8 9 by simp_all
  with r(1,2) 1 4 show ?thesis by blast
qed

subsection \<open>Refreshing the catalogs\<close>

lemma dict_set_keys: "fst ` set (dict_set d k v) = insert k (fst ` set d)"
proof (induction d)
  case Nil
  then show ?case by simp
next
  case (Cons a d)
  obtain k1 v1 where a: "a = (k1, v1)" by (cases a)
  show ?case
    using Cons.IH by (cases "k1 = k") (simp_all add: a insert_commute)
qed

lemma foldl_dict_set_keys:
  "fst ` set (foldl (\<lambda>d x. dict_set d (key x) x) d0 xs) = fst ` set d0 \<union> key ` set xs"
proof (induction xs arbitrary: d0)
  case Nil
  then show ?case by simp
next
  case (Cons x xs)
  have "fst ` set (foldl (\<lambda>d x. dict_set d (key x) x) (dict_set d0 (key x) x) xs)
          = fst ` set (dict_set d0 (key x) x) \<union> key ` set xs"
    by (rule Cons.IH)
  then show ?case
    by (simp add: dict_set_keys)
qed

lemma dict_of_keys: "dict_in n (dict_of key xs) \<longleftrightarrow> n \<in> key ` set xs"
  using foldl_dict_set_keys [of key "[]" xs] by (simp add: dict_in_def dict_of_def)


text \<open>
  Claim C4, as the code has it. \<^verbatim>\<open>_refresh\<close> replaces each catalog wholesale, the
  resource catalog first and the prompt catalog after it: a name is in the new catalog
  exactly when it is in the listing. When listing the resources fails, neither catalog
  changes. When listing the prompts fails, the resource catalog has already been replaced
  and the prompt catalog keeps its value from before the refresh. In both cases the
  exception goes to the caller.
\<close>

theorem refresh_replaces_resources_then_prompts:
  assumes "connected s"
  shows "(list_resources env (world s) = (Inl e, w) \<longrightarrow>
            (\<exists>s1. refresh env s = (Inl e, s1)
               \<and> available_resources s1 = available_resources s
               \<and> available_prompts s1 = available_prompts s))
       \<and> (list_resources env (world s) = (Inr rs, w) \<and> list_prompts env w = (Inl e, w1) \<longrightarrow>
            (\<exists>s1. refresh env s = (Inl e, s1)
               \<and> available_resources s1 = dict_of resource_name rs
               \<and> available_prompts s1 = available_prompts s))
       \<and> (list_resources env (world s) = (Inr rs, w) \<and> list_prompts env w = (Inr ps, w1) \<longrightarrow>
            (\<exists>s1. refresh env s = (Inr (), s1)
               \<and> available_resources s1 = dict_of resource_name rs
               \<and> available_prompts s1 = dict_of prompt_name ps))
       \<and> (\<forall>n. dict_in n (dict_of resource_name rs) \<longleftrightarrow> n \<in> resource_name ` set rs)
       \<and> (\<forall>n. dict_in n (dict_of prompt_name ps) \<longleftrightarrow> n \<in> prompt_name ` set ps)"
proof (intro conjI impI allI)
  assume "list_resources env (world s) = (Inl e, w)"
  then show "\<exists>s1. refresh env s = (Inl e, s1)
               \<and> available_resources s1 = available_resources s
               \<and> available_prompts s1 = available_prompts s"
    using assms by (simp add: refresh_def get_available_resources_def)
next
  assume "list_resources env (world s) = (Inr rs, w) \<and> list_prompts env w = (Inl e, w1)"
  then show "\<exists>s1. refresh env s = (Inl e, s1)
               \<and> available_resources s1 = dict_of resource_name rs
               \<and> available_prompts s1 = available_prompts s"
    using assms
    by (simp add: refresh_def get_available_resources_def get_available_prompts_def)
next
  assume "list_resources env (world s) = (Inr rs, w) \<and> list_prompts env w = (Inr ps, w1)"
  then show "\<exists>s1. refresh env s = (Inr (), s1)
               \<and> available_resources s1 = dict_of resource_name rs
               \<and> available_prompts s1 = dict_of prompt_name ps"
    using assms
    by (simp add: refresh_def get_available_resources_def get_available_prompts_def)
next
  fix n
  show "dict_in n (dict_of resource_name rs) \<longleftrightarrow> n \<in> resource_name ` set rs"
    by (rule dict_of_keys)
next
  fix n
  show "dict_in n (dict_of prompt_name ps) \<longleftrightarrow> n \<in> prompt_name ` set ps"
    by (rule dict_of_keys)
qed

text \<open>The listing of the resources answers, the listing of the prompts fails.\<close>

theorem refresh_witness:
  "connected stale_state
   \<and> list_resources (example_env [] (Inl (LibraryError ''connection closed''))) (world stale_state)
       = (Inr [math_constants], 0)
   \<and> list_prompts (example_env [] (Inl (LibraryError ''connection closed''))) 0
       = (Inl (LibraryError ''connection closed''), 0)
   \<and> (\<exists>s1. refresh (example_env [] (Inl (LibraryError ''connection closed''))) stale_state
              = (Inl (LibraryError ''connection closed''), s1)
          \<and> available_resources s1 = dict_of resource_name [math_constants]
          \<and> available_prompts s1 = available_prompts stale_state)
   \<and> dict_in ''math-constants'' (dict_of resource_name [math_constants])
   \<and> \<not> dict_in ''old-notes'' (dict_of resource_name [math_constants])"
proof -
  have 1: "connected stale_state"
    by (simp add: stale_state_def)
  have 2: "list_resources (example_env [] (Inl (LibraryError ''connection closed''))) (world stale_state)
       = (Inr [math_constants], 0)"
    by (simp add: example_env_def stale_state_def)
  have 3: "list_prompts (example_env [] (Inl (LibraryError ''connection closed''))) 0
       = (Inl (LibraryError ''connection closed''), 0)"
    by (simp add: example_env_def)
  have 4: "''math-constants'' \<in> resource_name ` set [math_constants]"
    by (simp add: math_constants_def)
  have 5: "''old-notes'' \<notin> resource_name ` set [math_constants]"
    by (simp add: math_constants_def)
  note t = refresh_replaces_resources_then_prompts [OF 1,
            of "example_env [] (Inl (LibraryError ''connection closed''))"
               "LibraryError ''connection closed''" 0 "[math_constants]" 0 "[]"]
  have a: "\<exists>s1. refresh (example_env [] (Inl (LibraryError ''connection closed''))) stale_state
              = (Inl (LibraryError ''connection closed''), s1)
          \<and> available_resources s1 = dict_of resource_name [math_constants]
          \<and> available_prompts s1 = available_prompts stale_state"
    using t 2 3 by blast
  have b: "dict_in ''math-constants'' (dict_of resource_name [math_constants])"
    using t 4 by blast
  have c: "\<not> dict_in ''old-notes'' (dict_of resource_name [math_constants])"
    using t 5 by blast
  show ?thesis using 1 2 3 a b c by (intro conjI)
qed

text \<open>The claim as it was stated fails: the listing of the prompts fails, and the
  resource catalog, which held \<^verbatim>\<open>old-notes\<close> before, holds \<^verbatim>\<open>math-constants\<close> after.\<close>

theorem refresh_counterexample:
  "fst (refresh (example_env [] (Inl (LibraryError ''connection closed''))) stale_state)
     = Inl (LibraryError ''connection closed'')
   \<and> available_resources stale_state = [(''old-notes'', old_notes)]
   \<and> available_resources (snd (refresh (example_env [] (Inl (LibraryError ''connection closed''))) stale_state))
     = [(''math-constants'', math_constants)]
   \<and> available_prompts (snd (refresh (example_env [] (Inl (LibraryError ''connection closed''))) stale_state))
     = [(''step-by-step-math'', step_by_step)]"
  by code_simp

subsection \<open>The session\<close>

















end
